theory Spec2Isabelle
  imports Main "HOL-Library.Word"
begin

unbundle bit_operations_syntax

section \<open>Go values\<close>

text \<open>
  Timestamps are Go \<open>int64\<close>: 64-bit words, compared as two's complement
  (\<open><s\<close>), with \<open>+\<close> wrapping. Go's \<open>int\<close> is taken at its 64-bit width, so
  that \<open>int64(x)\<close> is the identity.
\<close>

type_synonym int64 = "64 word"
type_synonym byte = "8 word"
type_synonym bytes = "byte list"

text \<open>
  A value of type \<open>interface{}\<close>, as far as the store tells values apart: nil, an
  \<open>int64\<close>, or a value of another dynamic type.
\<close>

datatype gval = GNil | GInt64 int64 | GInt int64 | GString string | GBool bool

text \<open>The session value map. Indexing a Go map at an absent key gives nil.\<close>

type_synonym value_map = "string \<rightharpoonup> gval"

definition map_index :: "value_map \<Rightarrow> string \<Rightarrow> gval" where
  "map_index vs k = (case vs k of None \<Rightarrow> GNil | Some v \<Rightarrow> v)"

text \<open>\<open>delete(m, k)\<close>.\<close>

definition map_delete :: "value_map \<Rightarrow> string \<Rightarrow> value_map" where
  "map_delete vs k = vs(k := None)"

datatype error =
    ErrNoRows
  | ErrSessionExpired
  | ErrCodec string
  | ErrDriver string
  | ErrWrap error string

text \<open>A call either panics or returns.\<close>

datatype 'a outcome = Panicked | Return 'a

text \<open>The type assertion \<open>v.(int64)\<close>: it panics on every other dynamic type.\<close>

definition assert_int64 :: "gval \<Rightarrow> int64 outcome" where
  "assert_int64 v = (case v of GInt64 n \<Rightarrow> Return n | _ \<Rightarrow> Panicked)"

section \<open>Session identifiers: encoding/base32 and strings.TrimRight\<close>

text \<open>
  \<open>base32.StdEncoding.EncodeToString\<close> of Go's standard library (RFC 4648): five
  bytes give eight characters of the alphabet below; a last group of one to four bytes
  gives 2, 4, 5 or 7 characters and is filled up to eight with \<open>=\<close>.
\<close>

definition encodeStd :: string where
  "encodeStd = ''ABCDEFGHIJKLMNOPQRSTUVWXYZ234567''"

definition b32_char :: "byte \<Rightarrow> char" where
  "b32_char x = encodeStd ! unat (x AND 31)"

definition b32_quantum :: "byte \<Rightarrow> byte \<Rightarrow> byte \<Rightarrow> byte \<Rightarrow> byte \<Rightarrow> string" where
  "b32_quantum a b c d e = map b32_char
     [drop_bit 3 a,
      push_bit 2 a OR drop_bit 6 b,
      drop_bit 1 b,
      push_bit 4 b OR drop_bit 4 c,
      push_bit 1 c OR drop_bit 7 d,
      drop_bit 2 d,
      push_bit 3 d OR drop_bit 5 e,
      e]"

fun EncodeToString :: "bytes \<Rightarrow> string" where
  "EncodeToString [] = []"
| "EncodeToString [a] = take 2 (b32_quantum a 0 0 0 0) @ replicate 6 (CHR ''='')"
| "EncodeToString [a, b] = take 4 (b32_quantum a b 0 0 0) @ replicate 4 (CHR ''='')"
| "EncodeToString [a, b, c] = take 5 (b32_quantum a b c 0 0) @ replicate 3 (CHR ''='')"
| "EncodeToString [a, b, c, d] = take 7 (b32_quantum a b c d 0) @ replicate 1 (CHR ''='')"
| "EncodeToString (a # b # c # d # e # rest) = b32_quantum a b c d e @ EncodeToString rest"

text \<open>
  \<open>strings.TrimRight(s, cutset)\<close>, \<open>strings.TrimLeft\<close> and \<open>strings.Trim\<close>: drop the
  trailing, leading, or both runs of characters of the cutset.
\<close>

definition TrimRight :: "string \<Rightarrow> string \<Rightarrow> string" where
  "TrimRight s cutset = rev (dropWhile (\<lambda>c. c \<in> set cutset) (rev s))"

definition TrimLeft :: "string \<Rightarrow> string \<Rightarrow> string" where
  "TrimLeft s cutset = dropWhile (\<lambda>c. c \<in> set cutset) s"

definition Trim :: "string \<Rightarrow> string \<Rightarrow> string" where
  "Trim s cutset = TrimRight (TrimLeft s cutset) cutset"

text \<open>
  The identifier \<open>Save\<close> makes from \<open>key\<close>, the bytes that
  \<open>securecookie.GenerateRandomKey(32)\<close> returned.
\<close>

definition new_session_id :: "bytes \<Rightarrow> string" where
  "new_session_id key = TrimRight (EncodeToString key) ''=''"

section \<open>Rows, sessions, request context\<close>

text \<open>
  A row of the session table without its primary key \<open>id\<close>: the table below is a map
  from \<open>id\<close> to the other four columns. Every column is scanned into a \<open>null\<close> type,
  so a column may hold SQL NULL (\<open>None\<close>).
\<close>

record sessionRow =
  data :: "bytes option"
  created :: "int64 option"
  modified :: "int64 option"
  expires :: "int64 option"

text \<open>The fields \<open>.Int64\<close> and \<open>.Bytes\<close> of a scanned column: the zero value on NULL.\<close>

definition null_Int64 :: "int64 option \<Rightarrow> int64" where
  "null_Int64 c = (case c of None \<Rightarrow> 0 | Some n \<Rightarrow> n)"

definition null_Bytes :: "bytes option \<Rightarrow> bytes" where
  "null_Bytes c = (case c of None \<Rightarrow> [] | Some b \<Rightarrow> b)"

text \<open>\<open>sessions.Session\<close>, as far as the store reads and writes it.\<close>

record session =
  ID :: string
  Values :: value_map
  IsNew :: bool
  Name :: string

text \<open>\<open>sessions.NewSession(store, name)\<close>: no identifier, an empty value map.\<close>

definition NewSession :: "string \<Rightarrow> session" where
  "NewSession n = \<lparr>ID = [], Values = Map.empty, IsNew = False, Name = n\<rparr>"

text \<open>
  What a call reads from \<open>echo.Context\<close>: the request's cookies (\<open>GetCookie\<close> gives
  the empty string for an absent cookie) and \<open>CookieOptions().MaxAge\<close>.
\<close>

record ctx =
  GetCookie :: "string \<Rightarrow> string"
  CookieMaxAge :: int64

text \<open>A call of \<open>sessions.SetCookie(ctx, name, value, maxAge...)\<close> on the response.\<close>

datatype set_cookie = SetCookie string string "int64 option"

text \<open>A line written by \<open>log.Printf\<close>.\<close>

datatype log_line =
    LogSessionExpired int64 int64
  | LogUnableToDelete error

text \<open>
  Everything a call can change: the session object it was handed, the session table,
  the cookies set on the response and the log.
\<close>

record state =
  sess :: session
  db :: "string \<rightharpoonup> sessionRow"
  response :: "set_cookie list"
  logged :: "log_line list"

section \<open>Collaborators\<close>

text \<open>The calls the store makes on the database handle and its prepared statements.\<close>

datatype db_call =
    ExecDDL
  | PrepareInsert | PrepareDelete | PrepareUpdate | PrepareSelect
  | ExecInsert | ExecDelete | ExecUpdate | QuerySelect
  | ExecGC

text \<open>
  The packages the store calls and this repository does not contain, as parameters:
  \<^item> \<open>DefaultMaxAge\<close>, \<open>EmptyDataAge\<close>: the constants \<open>ss.DefaultMaxAge\<close> and
    \<open>engine.EmptyDataAge\<close>; \<open>EmptyGobSize\<close>: \<open>sessions.EmptyGobSize()\<close>;
  \<^item> \<open>GenerateRandomKey\<close>: the bytes \<open>securecookie.GenerateRandomKey(32)\<close> returns;
  \<^item> \<open>Serialize\<close>, \<open>Deserialize\<close>: \<open>securecookie.Gob\<close>; deserialising writes
    through a pointer to the session's map, so it takes the map and returns it with an
    optional error;
  \<^item> \<open>DecodeMulti\<close>, \<open>EncodeMulti\<close>: the codec chain, applied to a cookie name and a
    value; decoding writes through a pointer to the session's identifier;
  \<^item> \<open>Sprintf\<close>: \<open>fmt.Sprintf\<close> at the DDL template and the table name;
  \<^item> \<open>fault\<close>: the error, if any, with which the driver fails a call.
\<close>

record env =
  DefaultMaxAge :: int64
  EmptyDataAge :: int64
  EmptyGobSize :: nat
  GenerateRandomKey :: bytes
  Serialize :: "value_map \<Rightarrow> error + bytes"
  Deserialize :: "bytes \<Rightarrow> value_map \<Rightarrow> value_map \<times> error option"
  DecodeMulti :: "string \<Rightarrow> string \<Rightarrow> string \<Rightarrow> string \<times> error option"
  EncodeMulti :: "string \<Rightarrow> string \<Rightarrow> error + string"
  Sprintf :: "string \<Rightarrow> string \<Rightarrow> string"
  fault :: "db_call \<Rightarrow> error option"

section \<open>The statements and what they do to the table\<close>

text \<open>\<open>REPLACE INTO t (id, data, created, modified, expires) VALUES (?, ?, ?, ?, ?)\<close>\<close>

definition stmtInsert ::
  "string \<Rightarrow> bytes \<Rightarrow> int64 \<Rightarrow> int64 \<Rightarrow> int64 \<Rightarrow> (string \<rightharpoonup> sessionRow) \<Rightarrow> (string \<rightharpoonup> sessionRow)" where
  "stmtInsert i d c mo e t =
     t(i \<mapsto> \<lparr>data = Some d, created = Some c, modified = Some mo, expires = Some e\<rparr>)"

text \<open>\<open>DELETE FROM t WHERE id = ?\<close>\<close>

definition stmtDelete :: "string \<Rightarrow> (string \<rightharpoonup> sessionRow) \<Rightarrow> (string \<rightharpoonup> sessionRow)" where
  "stmtDelete i t = t(i := None)"

text \<open>\<open>UPDATE t SET data = ?, created = ?, expires = ? WHERE id = ?\<close>\<close>

definition stmtUpdate ::
  "bytes \<Rightarrow> int64 \<Rightarrow> int64 \<Rightarrow> string \<Rightarrow> (string \<rightharpoonup> sessionRow) \<Rightarrow> (string \<rightharpoonup> sessionRow)" where
  "stmtUpdate d c e i t =
     (case t i of
        None \<Rightarrow> t
      | Some r \<Rightarrow> t(i \<mapsto> r\<lparr>data := Some d, created := Some c, expires := Some e\<rparr>))"

text \<open>\<open>SELECT id, data, created, modified, expires from t WHERE id = ?\<close>\<close>

definition stmtSelect :: "string \<Rightarrow> (string \<rightharpoonup> sessionRow) \<Rightarrow> sessionRow option" where
  "stmtSelect i t = t i"

text \<open>
  The two garbage-collection fragments, each completed by a decimal number \<open>n\<close>:
  \<open>DELETE FROM t WHERE expires < n\<close> and
  \<open>DELETE FROM t WHERE char_length(data) = k AND created < n\<close>.
  A comparison with NULL selects no row.
\<close>

datatype gc_fragment =
    DeleteWhereExpiresLess
  | DeleteWhereLengthAndCreatedLess nat

fun gc_selects :: "gc_fragment \<Rightarrow> int64 \<Rightarrow> sessionRow \<Rightarrow> bool" where
  "gc_selects DeleteWhereExpiresLess n r =
     (case expires r of None \<Rightarrow> False | Some e \<Rightarrow> e <s n)"
| "gc_selects (DeleteWhereLengthAndCreatedLess k) n r =
     (case data r of
        None \<Rightarrow> False
      | Some d \<Rightarrow> length d = k \<and> (case created r of None \<Rightarrow> False | Some c \<Rightarrow> c <s n))"

definition exec_gc ::
  "gc_fragment \<Rightarrow> int64 \<Rightarrow> (string \<rightharpoonup> sessionRow) \<Rightarrow> (string \<rightharpoonup> sessionRow)" where
  "exec_gc q n t =
     (\<lambda>i. case t i of
             None \<Rightarrow> None
           | Some r \<Rightarrow> if gc_selects q n r then None else Some r)"

section \<open>The store\<close>

record Options =
  cfg_Table :: string
  cfg_KeyPrefix :: string
  cfg_MaxAge :: int64
  cfg_EmptyDataAge :: int64
  cfg_MaxLength :: int64
  cfg_CheckInterval :: int64
  cfg_MaxReconnect :: int64
  cfg_ddl :: string

record SQLStore =
  gcMaxAgeSQL :: gc_fragment
  gcEmptyDataSQL :: gc_fragment
  tableName :: string
  maxAge :: int64
  emptyDataAge :: int64
  checkInterval :: int64
  keyPrefix :: string

text \<open>
  \<open>New(db, cfg)\<close>: the table is created and the four statements are prepared, each
  failure wrapped with the text of its statement; then both garbage-collection
  fragments are built and the defaults filled in. (The length limit goes to the codecs,
  which are a parameter here.)
\<close>

definition New :: "env \<Rightarrow> Options \<Rightarrow> error + SQLStore" where
  "New env cfg =
     (let tn = [CHR 0x60]
               @ Trim (if cfg_Table cfg = [] then ''session'' else cfg_Table cfg) [CHR 0x60]
               @ [CHR 0x60];
          cTableQ = Sprintf env (cfg_ddl cfg) tn;
          insQ = ''REPLACE INTO '' @ tn
                 @ ''(id, data, created, modified, expires) VALUES (?, ?, ?, ?, ?)'';
          delQ = ''DELETE FROM '' @ tn @ '' WHERE id = ?'';
          updQ = ''UPDATE '' @ tn @ '' SET data = ?, created = ?, expires = ? ''
                 @ ''WHERE id = ?'';
          selQ = ''SELECT id, data, created, modified, expires from '' @ tn
                 @ '' WHERE id = ?''
      in case fault env ExecDDL of Some err \<Rightarrow> Inl (ErrWrap err cTableQ) | None \<Rightarrow>
         (case fault env PrepareInsert of Some err \<Rightarrow> Inl (ErrWrap err insQ) | None \<Rightarrow>
         (case fault env PrepareDelete of Some err \<Rightarrow> Inl (ErrWrap err delQ) | None \<Rightarrow>
         (case fault env PrepareUpdate of Some err \<Rightarrow> Inl (ErrWrap err updQ) | None \<Rightarrow>
         (case fault env PrepareSelect of Some err \<Rightarrow> Inl (ErrWrap err selQ) | None \<Rightarrow>
            Inr \<lparr>gcMaxAgeSQL = DeleteWhereExpiresLess,
                 gcEmptyDataSQL = DeleteWhereLengthAndCreatedLess (EmptyGobSize env),
                 tableName = tn,
                 maxAge = cfg_MaxAge cfg,
                 emptyDataAge = (if cfg_EmptyDataAge cfg \<le>s 0 then EmptyDataAge env
                                 else cfg_EmptyDataAge cfg),
                 checkInterval = cfg_CheckInterval cfg,
                 keyPrefix = (if cfg_KeyPrefix cfg = [] then ''_'' else cfg_KeyPrefix cfg)\<rparr>)))))"

text \<open>\<open>MaxAge\<close>: the cookie's max-age unless it is 0, then the store's if positive.\<close>

definition MaxAge :: "env \<Rightarrow> SQLStore \<Rightarrow> ctx \<Rightarrow> int64" where
  "MaxAge env n c =
     (if CookieMaxAge c = 0
      then (if 0 <s maxAge n then maxAge n else DefaultMaxAge env)
      else CookieMaxAge c)"

text \<open>The three metadata keys are deleted from the value map before it is serialised.\<close>

definition strip_metadata :: "SQLStore \<Rightarrow> value_map \<Rightarrow> value_map" where
  "strip_metadata m vs =
     map_delete (map_delete (map_delete vs (keyPrefix m @ ''created''))
                            (keyPrefix m @ ''expires''))
                (keyPrefix m @ ''modified'')"

text \<open>\<open>Remove\<close>: nothing is sent for the empty identifier.\<close>

definition Remove :: "env \<Rightarrow> SQLStore \<Rightarrow> string \<Rightarrow> state \<Rightarrow> state \<times> error option" where
  "Remove env m sessionID st =
     (if sessionID = [] then (st, None)
      else case fault env ExecDelete of
             Some delErr \<Rightarrow> (st, Some delErr)
           | None \<Rightarrow> (st\<lparr>db := stmtDelete sessionID (db st)\<rparr>, None))"

text \<open>
  \<open>Delete\<close>: the cookie is set to expire, the loop deletes every key of the value map,
  then \<open>Remove\<close> runs.
\<close>

definition Delete :: "env \<Rightarrow> SQLStore \<Rightarrow> ctx \<Rightarrow> state \<Rightarrow> state \<times> error option" where
  "Delete env m c st =
     (let st1 = st\<lparr>response := response st @ [SetCookie (Name (sess st)) [] (Some (- 1))]\<rparr>;
          st2 = st1\<lparr>sess := (sess st1)\<lparr>Values := Map.empty\<rparr>\<rparr>
      in Remove env m (ID (sess st2)) st2)"

text \<open>
  \<open>insert\<close>; \<open>nowTs\<close> is \<open>time.Now().Unix()\<close>. Both type assertions can panic, before
  anything has been changed.
\<close>

definition insert_row ::
  "env \<Rightarrow> SQLStore \<Rightarrow> int64 \<Rightarrow> ctx \<Rightarrow> state \<Rightarrow> (state \<times> error option) outcome" where
  "insert_row env m nowTs c st =
     (let createdV = map_index (Values (sess st)) (keyPrefix m @ ''created'') in
      case (if createdV = GNil then Return nowTs else assert_int64 createdV) of
        Panicked \<Rightarrow> Panicked
      | Return createdAt \<Rightarrow>
         (let modifiedAt = createdAt;
              expiresV = map_index (Values (sess st)) (keyPrefix m @ ''expires'') in
          case (if expiresV = GNil then Return (nowTs + MaxAge env m c)
                else assert_int64 expiresV) of
            Panicked \<Rightarrow> Panicked
          | Return expiredAt \<Rightarrow>
             (let st1 = st\<lparr>sess := (sess st)\<lparr>Values := strip_metadata m (Values (sess st))\<rparr>\<rparr> in
              case Serialize env (Values (sess st1)) of
                Inl err \<Rightarrow> Return (st1, Some err)
              | Inr encoded \<Rightarrow>
                 (case fault env ExecInsert of
                    Some insErr \<Rightarrow> Return (st1, Some insErr)
                  | None \<Rightarrow>
                     Return (st1\<lparr>db := stmtInsert (ID (sess st1)) encoded
                                          createdAt modifiedAt expiredAt (db st1)\<rparr>,
                             None)))))"

text \<open>\<open>save\<close>: an is-new session is inserted; any other is updated.\<close>

definition save ::
  "env \<Rightarrow> SQLStore \<Rightarrow> int64 \<Rightarrow> ctx \<Rightarrow> state \<Rightarrow> (state \<times> error option) outcome" where
  "save env m nowTs c st =
     (if IsNew (sess st) then insert_row env m nowTs c st
      else
       (let createdV = map_index (Values (sess st)) (keyPrefix m @ ''created'') in
        case (if createdV = GNil then Return nowTs else assert_int64 createdV) of
          Panicked \<Rightarrow> Panicked
        | Return createdAt \<Rightarrow>
           (let expiresV = map_index (Values (sess st)) (keyPrefix m @ ''expires'');
                maxAge' = MaxAge env m c in
            case (if expiresV = GNil then Return (nowTs + maxAge')
                  else (case assert_int64 expiresV of
                          Panicked \<Rightarrow> Panicked
                        | Return expiredAt \<Rightarrow>
                           (let expiresTs = nowTs + maxAge' in
                            Return (if expiredAt <s expiresTs then expiresTs
                                    else expiredAt)))) of
              Panicked \<Rightarrow> Panicked
            | Return expiredAt \<Rightarrow>
               (let st1 = st\<lparr>sess := (sess st)\<lparr>Values := strip_metadata m (Values (sess st))\<rparr>\<rparr> in
                case Serialize env (Values (sess st1)) of
                  Inl err \<Rightarrow> Return (st1, Some err)
                | Inr encoded \<Rightarrow>
                   (case fault env ExecUpdate of
                      Some updErr \<Rightarrow> Return (st1, Some updErr)
                    | None \<Rightarrow>
                       Return (st1\<lparr>db := stmtUpdate encoded createdAt expiredAt
                                            (ID (sess st1)) (db st1)\<rparr>,
                               None))))))"

text \<open>
  \<open>Save\<close>: a negative cookie max-age deletes; a session without identifier gets one
  and is inserted; after the row is written the identifier is encoded into the cookie.
\<close>

definition Save ::
  "env \<Rightarrow> SQLStore \<Rightarrow> int64 \<Rightarrow> ctx \<Rightarrow> state \<Rightarrow> (state \<times> error option) outcome" where
  "Save env m nowTs c st =
     (if CookieMaxAge c <s 0 then Return (Delete env m c st)
      else
       case (if ID (sess st) = []
             then insert_row env m nowTs c
                    (st\<lparr>sess := (sess st)\<lparr>ID := new_session_id (GenerateRandomKey env)\<rparr>\<rparr>)
             else save env m nowTs c st) of
         Panicked \<Rightarrow> Panicked
       | Return (st1, Some err) \<Rightarrow> Return (st1, Some err)
       | Return (st1, None) \<Rightarrow>
          (case EncodeMulti env (Name (sess st1)) (ID (sess st1)) of
             Inl err \<Rightarrow> Return (st1, Some err)
           | Inr encoded \<Rightarrow>
              Return (st1\<lparr>response := response st1
                                       @ [SetCookie (Name (sess st1)) encoded None]\<rparr>,
                      None)))"

text \<open>
  \<open>load\<close>: the scan fails with the driver's error or with \<open>sql.ErrNoRows\<close>; an expired
  row is logged and reported; otherwise the payload is deserialised into the value map
  and the three metadata keys are set.
\<close>

definition load :: "env \<Rightarrow> SQLStore \<Rightarrow> int64 \<Rightarrow> state \<Rightarrow> state \<times> error option" where
  "load env m now st =
     (case fault env QuerySelect of
        Some scanErr \<Rightarrow> (st, Some scanErr)
      | None \<Rightarrow>
         (case stmtSelect (ID (sess st)) (db st) of
            None \<Rightarrow> (st, Some ErrNoRows)
          | Some row \<Rightarrow>
             if null_Int64 (expires row) <s now
             then (st\<lparr>logged := logged st
                                  @ [LogSessionExpired (null_Int64 (expires row)) now]\<rparr>,
                   Some ErrSessionExpired)
             else
              (case Deserialize env (null_Bytes (data row)) (Values (sess st)) of
                 (vs, Some err) \<Rightarrow> (st\<lparr>sess := (sess st)\<lparr>Values := vs\<rparr>\<rparr>, Some err)
               | (vs, None) \<Rightarrow>
                  (st\<lparr>sess := (sess st)\<lparr>Values :=
                         vs(keyPrefix m @ ''created'' \<mapsto> GInt64 (null_Int64 (created row)),
                            keyPrefix m @ ''modified'' \<mapsto> GInt64 (null_Int64 (modified row)),
                            keyPrefix m @ ''expires'' \<mapsto> GInt64 (null_Int64 (expires row)))\<rparr>\<rparr>,
                   None))))"

text \<open>
  After \<open>load\<close>, \<open>New\<close> and \<open>Reload\<close> clear the is-new flag on success and turn
  \<open>sql.ErrNoRows\<close> and \<open>ErrSessionExpired\<close> into no error.
\<close>

definition absorb :: "state \<times> error option \<Rightarrow> state \<times> error option" where
  "absorb r =
     (case r of
        (st, None) \<Rightarrow> (st\<lparr>sess := (sess st)\<lparr>IsNew := False\<rparr>\<rparr>, None)
      | (st, Some err) \<Rightarrow>
         if err = ErrNoRows \<or> err = ErrSessionExpired then (st, None) else (st, Some err))"

text \<open>
  The method \<open>New\<close> of the store. The session is made here; the \<open>sess\<close> of the state
  that comes in is not read, the \<open>sess\<close> of the state that goes out is the session
  returned.
\<close>

definition SQLStore_New ::
  "env \<Rightarrow> SQLStore \<Rightarrow> int64 \<Rightarrow> ctx \<Rightarrow> string \<Rightarrow> state \<Rightarrow> state \<times> error option" where
  "SQLStore_New env m now c n st =
     (let session0 = (NewSession n)\<lparr>IsNew := True\<rparr>;
          v = GetCookie c n
      in if v = [] then (st\<lparr>sess := session0\<rparr>, None)
         else
          (case DecodeMulti env n v (ID session0) of
             (i, Some err) \<Rightarrow> (st\<lparr>sess := session0\<lparr>ID := i\<rparr>\<rparr>, Some err)
           | (i, None) \<Rightarrow> absorb (load env m now (st\<lparr>sess := session0\<lparr>ID := i\<rparr>\<rparr>))))"

definition Reload :: "env \<Rightarrow> SQLStore \<Rightarrow> int64 \<Rightarrow> state \<Rightarrow> state \<times> error option" where
  "Reload env m now st = absorb (load env m now st)"

section \<open>The sweeper\<close>

text \<open>
  \<open>deleteExpired\<close> executes one statement: the fragment \<open>gcStmt\<close> followed by the
  current time. The struct under \<open>src/\<close> declares no field \<open>gcStmt\<close> (its fragments
  are \<open>gcMaxAgeSQL\<close> and \<open>gcEmptyDataSQL\<close>), so the fragment is a parameter.
\<close>

definition deleteExpired ::
  "gc_fragment \<Rightarrow> env \<Rightarrow> int64 \<Rightarrow> state \<Rightarrow> state \<times> error option" where
  "deleteExpired gcStmt env now st =
     (case fault env ExecGC of
        Some err \<Rightarrow> (st, Some err)
      | None \<Rightarrow> (st\<lparr>db := exec_gc gcStmt now (db st)\<rparr>, None))"

text \<open>The tick branch of the loop of \<open>cleanup\<close>: one sweep pass; an error is logged.\<close>

definition sweep_pass :: "gc_fragment \<Rightarrow> env \<Rightarrow> int64 \<Rightarrow> state \<Rightarrow> state" where
  "sweep_pass gcStmt env now st =
     (case deleteExpired gcStmt env now st of
        (st1, None) \<Rightarrow> st1
      | (st1, Some err) \<Rightarrow> st1\<lparr>logged := logged st1 @ [LogUnableToDelete err]\<rparr>)"

text \<open>
  What a sweep pass is to delete according to the specification: the rows with
  \<open>expires < now\<close> together with the rows whose payload has the size of an empty value
  map and whose \<open>created\<close> is less than \<open>now - emptyDataAge\<close>.
\<close>

definition spec_sweep_selects :: "env \<Rightarrow> SQLStore \<Rightarrow> int64 \<Rightarrow> sessionRow \<Rightarrow> bool" where
  "spec_sweep_selects env m now r =
     (gc_selects DeleteWhereExpiresLess now r
      \<or> gc_selects (DeleteWhereLengthAndCreatedLess (EmptyGobSize env))
                    (now - emptyDataAge m) r)"

section \<open>Helpers for statements\<close>

text \<open>The larger of two timestamps, compared as the code compares them.\<close>

definition smax :: "int64 \<Rightarrow> int64 \<Rightarrow> int64" where
  "smax a b = (if a <s b then b else a)"

text \<open>The \<open>expires\<close> column stored under an identifier, if the row is there.\<close>

definition stored_expires :: "state \<Rightarrow> string \<Rightarrow> int64 option" where
  "stored_expires st i = (case db st i of None \<Rightarrow> None | Some r \<Rightarrow> expires r)"

text \<open>The state a call returned with no error.\<close>

definition returned_ok :: "(state \<times> error option) outcome \<Rightarrow> state option" where
  "returned_ok r = (case r of Return (st, None) \<Rightarrow> Some st | _ \<Rightarrow> None)"

text \<open>A value a type assertion to \<open>int64\<close> guarded by a nil check accepts.\<close>

definition nil_or_int64 :: "gval \<Rightarrow> bool" where
  "nil_or_int64 v = (case v of GNil \<Rightarrow> True | GInt64 n \<Rightarrow> True | _ \<Rightarrow> False)"

section \<open>A small concrete installation\<close>

text \<open>
  A codec for value maps that hold at most a boolean under \<open>admin\<close>: one byte for the
  boolean, three zero bytes for the empty map. Cookies carry the identifier as it is;
  the cookie value \<open>forged\<close> fails authentication. The driver never fails. The store
  is configured with a max-age of 86400.
\<close>

definition flag_Serialize :: "value_map \<Rightarrow> error + bytes" where
  "flag_Serialize vs =
     (if vs ''admin'' = Some (GBool True) then Inr [1]
      else if vs ''admin'' = Some (GBool False) then Inr [2]
      else Inr [0, 0, 0])"

definition flag_Deserialize :: "bytes \<Rightarrow> value_map \<Rightarrow> value_map \<times> error option" where
  "flag_Deserialize b vs =
     (if b = [1] then (vs(''admin'' \<mapsto> GBool True), None)
      else if b = [2] then (vs(''admin'' \<mapsto> GBool False), None)
      else if b = [0, 0, 0] then (vs, None)
      else (vs, Some (ErrCodec ''gob'')))"

definition plain_DecodeMulti :: "string \<Rightarrow> string \<Rightarrow> string \<Rightarrow> string \<times> error option" where
  "plain_DecodeMulti n v dst =
     (if v = ''forged'' then (dst, Some (ErrCodec ''securecookie: the value is not valid''))
      else (v, None))"

definition test_env :: env where
  "test_env =
     \<lparr>DefaultMaxAge = 2592000,
      EmptyDataAge = 1200,
      EmptyGobSize = 3,
      GenerateRandomKey = replicate 32 0,
      Serialize = flag_Serialize,
      Deserialize = flag_Deserialize,
      DecodeMulti = plain_DecodeMulti,
      EncodeMulti = (\<lambda>n i. Inr i),
      Sprintf = (\<lambda>f a. f @ a),
      fault = (\<lambda>call. None)\<rparr>"

definition test_cfg :: Options where
  "test_cfg =
     \<lparr>cfg_Table = [], cfg_KeyPrefix = [], cfg_MaxAge = 86400, cfg_EmptyDataAge = 0,
      cfg_MaxLength = 0, cfg_CheckInterval = 0, cfg_MaxReconnect = 0,
      cfg_ddl = ''CREATE TABLE IF NOT EXISTS ''\<rparr>"

definition test_store :: SQLStore where
  "test_store =
     \<lparr>gcMaxAgeSQL = DeleteWhereExpiresLess,
      gcEmptyDataSQL = DeleteWhereLengthAndCreatedLess 3,
      tableName = [CHR 0x60] @ ''session'' @ [CHR 0x60],
      maxAge = 86400,
      emptyDataAge = 1200,
      checkInterval = 0,
      keyPrefix = ''_''\<rparr>"

definition test_ctx :: ctx where
  "test_ctx = \<lparr>GetCookie = (\<lambda>n. []), CookieMaxAge = 0\<rparr>"

text \<open>An empty table, nothing set on the response, nothing logged.\<close>

definition empty_state :: "session \<Rightarrow> state" where
  "empty_state s = \<lparr>sess = s, db = Map.empty, response = [], logged = []\<rparr>"

text \<open>A row that expired at 500, and a session that names it.\<close>

definition stale_row :: sessionRow where
  "stale_row = \<lparr>data = Some [1], created = Some 100, modified = Some 100, expires = Some 500\<rparr>"

definition stale_state :: state where
  "stale_state =
     \<lparr>sess = \<lparr>ID = ''abc'', Values = Map.empty, IsNew = True, Name = ''sid''\<rparr>,
      db = [''abc'' \<mapsto> stale_row],
      response = [],
      logged = []\<rparr>"

text \<open>
  A row that expires at 100000, and the session as \<open>load\<close> leaves it at a time before
  that: the payload deserialised, the three metadata keys set.
\<close>

definition fresh_row :: sessionRow where
  "fresh_row = \<lparr>data = Some [1], created = Some 100, modified = Some 100, expires = Some 100000\<rparr>"

definition admin_state :: state where
  "admin_state =
     \<lparr>sess = \<lparr>ID = ''abc'',
              Values = [''admin'' \<mapsto> GBool True, ''_created'' \<mapsto> GInt64 100,
                        ''_modified'' \<mapsto> GInt64 100, ''_expires'' \<mapsto> GInt64 100000],
              IsNew = False,
              Name = ''sid''\<rparr>,
      db = [''abc'' \<mapsto> fresh_row],
      response = [],
      logged = []\<rparr>"

text \<open>A request whose session cookie has the value \<open>v\<close>.\<close>

definition cookie_ctx :: "string \<Rightarrow> ctx" where
  "cookie_ctx v = \<lparr>GetCookie = (\<lambda>n. v), CookieMaxAge = 0\<rparr>"

text \<open>A driver that fails every call.\<close>

definition broken_env :: env where
  "broken_env = test_env\<lparr>fault := (\<lambda>call. Some (ErrDriver ''connection lost''))\<rparr>"

text \<open>A session in which the application stored the expiry as a Go \<open>int\<close>.\<close>

definition int_expiry_state :: state where
  "int_expiry_state =
     \<lparr>sess = \<lparr>ID = ''abc'', Values = [''_expires'' \<mapsto> GInt 3600], IsNew = False,
              Name = ''sid''\<rparr>,
      db = [''abc'' \<mapsto> fresh_row],
      response = [],
      logged = []\<rparr>"

text \<open>
  A session as \<open>New\<close> returns it for a request without cookie, after the application
  has set \<open>admin\<close>; the same after \<open>Save\<close> at time 1000 into an empty table (the
  random key being 32 zero bytes); and the same after \<open>Save\<close> under a cookie policy
  with a negative max-age.
\<close>

definition blank_session :: session where
  "blank_session = \<lparr>ID = [], Values = [''admin'' \<mapsto> GBool True], IsNew = True, Name = ''sid''\<rparr>"

definition saved_state :: state where
  "saved_state =
     \<lparr>sess = \<lparr>ID = replicate 52 (CHR ''A''), Values = [''admin'' \<mapsto> GBool True],
              IsNew = True, Name = ''sid''\<rparr>,
      db = [replicate 52 (CHR ''A'') \<mapsto>
              \<lparr>data = Some [1], created = Some 1000, modified = Some 1000,
               expires = Some 87400\<rparr>],
      response = [SetCookie ''sid'' (replicate 52 (CHR ''A'')) None],
      logged = []\<rparr>"

definition deleted_state :: state where
  "deleted_state =
     \<lparr>sess = \<lparr>ID = [], Values = Map.empty, IsNew = True, Name = ''sid''\<rparr>,
      db = Map.empty,
      response = [SetCookie ''sid'' [] (Some (- 1))],
      logged = []\<rparr>"

text \<open>
  The state after \<open>Save\<close> at time 1000 of \<open>blank_session\<close> into an empty table when
  \<open>GenerateRandomKey\<close> has returned no bytes.
\<close>

definition nokey_state :: state where
  "nokey_state =
     \<lparr>sess = \<lparr>ID = [], Values = [''admin'' \<mapsto> GBool True], IsNew = True,
              Name = ''sid''\<rparr>,
      db = [[] \<mapsto>
              \<lparr>data = Some [1], created = Some 1000, modified = Some 1000,
               expires = Some 87400\<rparr>],
      response = [SetCookie ''sid'' [] None],
      logged = []\<rparr>"

text \<open>
  The state after the session of \<open>admin_state\<close> has been saved at time 1000, and
  after it has then been saved again at time 50000. The max-age in force is the
  store's, 86400.
\<close>

definition once_updated :: state where
  "once_updated =
     \<lparr>sess = \<lparr>ID = ''abc'', Values = [''admin'' \<mapsto> GBool True], IsNew = False,
              Name = ''sid''\<rparr>,
      db = [''abc'' \<mapsto>
              \<lparr>data = Some [1], created = Some 100, modified = Some 100,
               expires = Some 100000\<rparr>],
      response = [],
      logged = []\<rparr>"

definition late_updated :: state where
  "late_updated =
     \<lparr>sess = \<lparr>ID = ''abc'', Values = [''admin'' \<mapsto> GBool True], IsNew = False,
              Name = ''sid''\<rparr>,
      db = [''abc'' \<mapsto>
              \<lparr>data = Some [1], created = Some 50000, modified = Some 100,
               expires = Some 136400\<rparr>],
      response = [],
      logged = []\<rparr>"

text \<open>The \<open>modified\<close> column stored under an identifier, if the row is there.\<close>

definition stored_modified :: "state \<Rightarrow> string \<Rightarrow> int64 option" where
  "stored_modified st i = (case db st i of None \<Rightarrow> None | Some r \<Rightarrow> modified r)"

text \<open>
  A table of two rows: \<open>old\<close> expired at 500; \<open>idle\<close> expires at 100000, was created
  at 100 and holds the payload of an empty value map.
\<close>

definition idle_row :: sessionRow where
  "idle_row =
     \<lparr>data = Some [0, 0, 0], created = Some 100, modified = Some 100, expires = Some 100000\<rparr>"

definition sweep_state :: state where
  "sweep_state =
     \<lparr>sess = NewSession ''sid'',
      db = [''old'' \<mapsto> stale_row, ''idle'' \<mapsto> idle_row],
      response = [],
      logged = []\<rparr>"

text \<open>
  A session without identifier in which the application has set the metadata key
  \<open>expires\<close> to 100000; the state after \<open>Save\<close> at time 900 into an empty table; after
  \<open>New\<close> has loaded the session from its cookie at time 950; after \<open>Save\<close> at time
  1000; and after \<open>Save\<close> again at time 1001. The max-age in force is 86400 throughout.
\<close>

definition preset_session :: session where
  "preset_session =
     \<lparr>ID = [], Values = [''_expires'' \<mapsto> GInt64 100000], IsNew = True, Name = ''sid''\<rparr>"

definition preset_saved :: state where
  "preset_saved =
     \<lparr>sess = \<lparr>ID = replicate 52 (CHR ''A''), Values = Map.empty, IsNew = True,
              Name = ''sid''\<rparr>,
      db = [replicate 52 (CHR ''A'') \<mapsto>
              \<lparr>data = Some [0, 0, 0], created = Some 900, modified = Some 900,
               expires = Some 100000\<rparr>],
      response = [SetCookie ''sid'' (replicate 52 (CHR ''A'')) None],
      logged = []\<rparr>"

definition preset_loaded :: state where
  "preset_loaded =
     preset_saved\<lparr>sess :=
       \<lparr>ID = replicate 52 (CHR ''A''),
        Values = [''_created'' \<mapsto> GInt64 900, ''_modified'' \<mapsto> GInt64 900,
                  ''_expires'' \<mapsto> GInt64 100000],
        IsNew = False, Name = ''sid''\<rparr>\<rparr>"

definition preset_resaved :: state where
  "preset_resaved =
     \<lparr>sess = \<lparr>ID = replicate 52 (CHR ''A''), Values = Map.empty, IsNew = False,
              Name = ''sid''\<rparr>,
      db = [replicate 52 (CHR ''A'') \<mapsto>
              \<lparr>data = Some [0, 0, 0], created = Some 900, modified = Some 900,
               expires = Some 100000\<rparr>],
      response = [SetCookie ''sid'' (replicate 52 (CHR ''A'')) None,
                  SetCookie ''sid'' (replicate 52 (CHR ''A'')) None],
      logged = []\<rparr>"

definition preset_resaved_again :: state where
  "preset_resaved_again =
     \<lparr>sess = \<lparr>ID = replicate 52 (CHR ''A''), Values = Map.empty, IsNew = False,
              Name = ''sid''\<rparr>,
      db = [replicate 52 (CHR ''A'') \<mapsto>
              \<lparr>data = Some [0, 0, 0], created = Some 1001, modified = Some 900,
               expires = Some 87401\<rparr>],
      response = [SetCookie ''sid'' (replicate 52 (CHR ''A'')) None,
                  SetCookie ''sid'' (replicate 52 (CHR ''A'')) None,
                  SetCookie ''sid'' (replicate 52 (CHR ''A'')) None],
      logged = []\<rparr>"

lemma b32_char_in: "b32_char x \<in> set encodeStd"
proof -
  have "unat (x AND 31) \<le> unat (31 :: byte)"
    by (rule word_and_le1 [THEN word_le_nat_alt [THEN iffD1]])
  then have "unat (x AND 31) < length encodeStd"
    by (simp add: encodeStd_def)
  then show ?thesis
    unfolding b32_char_def by (rule nth_mem)
qed

lemma pad_not_in_encodeStd: "CHR ''='' \<notin> set encodeStd"
  by (simp add: encodeStd_def)

lemma b32_quantum_set: "set (b32_quantum a b c d e) \<subseteq> set encodeStd"
  by (simp add: b32_quantum_def b32_char_in)

lemma b32_quantum_length: "length (b32_quantum a b c d e) = 8"
  by (simp add: b32_quantum_def)

lemma set_take_quantum: "set (take n (b32_quantum a b c d e)) \<subseteq> set encodeStd"
  using b32_quantum_set set_take_subset by fastforce

text \<open>
  The shape of an encoding: \<open>(8 * n + 4) div 5\<close> characters of the alphabet, then
  padding.
\<close>

lemma EncodeToString_shape:
  "\<exists>body pad. EncodeToString bs = body @ replicate pad (CHR ''='')
     \<and> length body = (8 * length bs + 4) div 5
     \<and> set body \<subseteq> set encodeStd"
proof (induction bs rule: EncodeToString.induct)
  case 1
  show ?case by simp
next
  case (2 a)
  show ?case
    by (rule exI [of _ "take 2 (b32_quantum a 0 0 0 0)"], rule exI [of _ 6])
       (simp add: b32_quantum_length set_take_quantum)
next
  case (3 a b)
  show ?case
    by (rule exI [of _ "take 4 (b32_quantum a b 0 0 0)"], rule exI [of _ 4])
       (simp add: b32_quantum_length set_take_quantum)
next
  case (4 a b c)
  show ?case
    by (rule exI [of _ "take 5 (b32_quantum a b c 0 0)"], rule exI [of _ 3])
       (simp add: b32_quantum_length set_take_quantum)
next
  case (5 a b c d)
  show ?case
    by (rule exI [of _ "take 7 (b32_quantum a b c d 0)"], rule exI [of _ 1])
       (simp add: b32_quantum_length set_take_quantum)
next
  case (6 a b c d e rest)
  then obtain body pad where
    r: "EncodeToString rest = body @ replicate pad (CHR ''='')"
    and l: "length body = (8 * length rest + 4) div 5"
    and s: "set body \<subseteq> set encodeStd"
    by blast
  show ?case
    by (rule exI [of _ "b32_quantum a b c d e @ body"], rule exI [of _ pad])
       (simp add: r l s b32_quantum_length b32_quantum_set)
qed

lemma TrimRight_body:
  assumes "CHR ''='' \<notin> set body"
  shows "TrimRight (body @ replicate pad (CHR ''='')) ''='' = body"
proof -
  have "dropWhile (\<lambda>c. c \<in> set ''='') (rev body) = rev body"
  proof (cases "rev body")
    case Nil
    then show ?thesis by simp
  next
    case (Cons x xs)
    then have "x \<in> set body"
      by (metis list.set_intros(1) set_rev)
    with assms have "x \<noteq> CHR ''=''" by auto
    with Cons show ?thesis by simp
  qed
  then show ?thesis
    by (simp add: TrimRight_def dropWhile_append)
qed

lemma new_session_id_shape:
  "length (new_session_id key) = (8 * length key + 4) div 5
     \<and> set (new_session_id key) \<subseteq> set encodeStd"
proof -
  obtain body pad where
    r: "EncodeToString key = body @ replicate pad (CHR ''='')"
    and l: "length body = (8 * length key + 4) div 5"
    and s: "set body \<subseteq> set encodeStd"
    using EncodeToString_shape by blast
  from s pad_not_in_encodeStd have "CHR ''='' \<notin> set body" by auto
  then have "new_session_id key = body"
    by (simp add: new_session_id_def r TrimRight_body)
  with l s show ?thesis by simp
qed

section \<open>Saving a session that has no identifier\<close>

lemma pos_max_age: "(0 :: int64) <s 86400"
  by (simp add: word_sless_alt)

lemma zero_key_id: "new_session_id (replicate 32 0) = replicate 52 (CHR ''A'')"
  by code_simp

lemma strip_metadata_other:
  assumes "k \<noteq> keyPrefix m @ ''created''"
    and "k \<noteq> keyPrefix m @ ''modified''"
    and "k \<noteq> keyPrefix m @ ''expires''"
  shows "strip_metadata m vs k = vs k"
  using assms by (simp add: strip_metadata_def map_delete_def)

text \<open>What a successful \<open>Save\<close> of a session without identifier has done.\<close>

lemma Save_without_identifier:
  assumes "ID (sess st) = []"
    and "\<not> CookieMaxAge c <s 0"
    and "Save env m now c st = Return (st1, None)"
  shows "\<exists>encoded createdAt expiredAt.
           Serialize env (strip_metadata m (Values (sess st))) = Inr encoded
         \<and> sess st1 = (sess st)\<lparr>ID := new_session_id (GenerateRandomKey env),
                                 Values := strip_metadata m (Values (sess st))\<rparr>
         \<and> db st1 = stmtInsert (new_session_id (GenerateRandomKey env)) encoded
                       createdAt createdAt expiredAt (db st)"
  using assms
  by (auto simp: Save_def insert_row_def Let_def
      split: if_splits outcome.splits sum.splits option.splits prod.splits)
     blast+

lemma saved_state_Save:
  "Save test_env test_store 1000 test_ctx (empty_state blank_session)
     = Return (saved_state, None)"
  by (simp add: Save_def insert_row_def test_ctx_def empty_state_def blank_session_def
      test_env_def test_store_def map_index_def MaxAge_def pos_max_age strip_metadata_def map_delete_def
      flag_Serialize_def stmtInsert_def zero_key_id saved_state_def)

section \<open>Updating\<close>

lemma smax_ge_left: "e \<le>s smax e x"
  by (simp add: smax_def word_sle_eq word_sless_alt)

lemma smax_ge_right: "x \<le>s smax e x"
  by (simp add: smax_def word_sle_eq word_sless_alt)

lemma sint_add_in_range:
  fixes a b :: int64
  assumes "- (2 ^ 63) \<le> sint a + sint b" and "sint a + sint b < 2 ^ 63"
  shows "sint (a + b) = sint a + sint b"
  using assms by (simp add: sint_word_ariths signed_take_bit_int_eq_self)

text \<open>What a successful \<open>save\<close> of a session that is not new has sent to the table.\<close>

lemma save_update_path:
  assumes "\<not> IsNew (sess st)"
    and "save env m now c st = Return (st1, None)"
  shows "\<exists>encoded createdAt expiredAt.
           db st1 = stmtUpdate encoded createdAt expiredAt (ID (sess st)) (db st)
         \<and> (map_index (Values (sess st)) (keyPrefix m @ ''expires'') = GNil
              \<and> expiredAt = now + MaxAge env m c
            \<or> (\<exists>e. map_index (Values (sess st)) (keyPrefix m @ ''expires'') = GInt64 e
                  \<and> expiredAt = smax e (now + MaxAge env m c)))"
  using assms
  apply (cases "map_index (Values (sess st)) (keyPrefix m @ ''expires'')")
      apply (auto simp: save_def Let_def assert_int64_def smax_def
      split: if_splits outcome.splits sum.splits option.splits)
       apply blast+
  done

lemma once_updated_save:
  "save test_env test_store 1000 test_ctx admin_state = Return (once_updated, None)"
  by (simp add: save_def admin_state_def test_store_def test_env_def test_ctx_def map_index_def
      assert_int64_def MaxAge_def pos_max_age strip_metadata_def map_delete_def flag_Serialize_def
      stmtUpdate_def fresh_row_def once_updated_def)

lemma late_updated_save:
  "save test_env test_store 50000 test_ctx once_updated = Return (late_updated, None)"
  by (simp add: save_def once_updated_def test_store_def test_env_def test_ctx_def map_index_def
      assert_int64_def MaxAge_def pos_max_age strip_metadata_def map_delete_def flag_Serialize_def
      stmtUpdate_def late_updated_def)

lemma test_MaxAge: "MaxAge test_env test_store test_ctx = 86400"
  by (simp add: MaxAge_def pos_max_age test_env_def test_store_def test_ctx_def)

text \<open>The four steps of the scenario with a preset expiry.\<close>

lemma preset_saved_Save: "Save test_env test_store 900 test_ctx (empty_state preset_session)
     = Return (preset_saved, None)"
  by (simp add: Save_def insert_row_def test_ctx_def empty_state_def preset_session_def
      test_env_def test_store_def map_index_def assert_int64_def strip_metadata_def
      map_delete_def flag_Serialize_def stmtInsert_def zero_key_id preset_saved_def)

lemma zero_id_not_forged: "replicate 52 (CHR ''A'') \<noteq> ''forged''"
  by code_simp

lemma preset_loaded_New: "SQLStore_New test_env test_store 950 (cookie_ctx (replicate 52 (CHR ''A''))) ''sid''
      preset_saved = (preset_loaded, None)"
  by (simp add: SQLStore_New_def NewSession_def cookie_ctx_def test_env_def test_store_def
      plain_DecodeMulti_def load_def stmtSelect_def preset_saved_def null_Int64_def
      null_Bytes_def flag_Deserialize_def absorb_def preset_loaded_def Let_def
      zero_id_not_forged)

lemma preset_resaved_Save: "Save test_env test_store 1000 (cookie_ctx (replicate 52 (CHR ''A''))) preset_loaded
     = Return (preset_resaved, None)"
  by (simp add: Save_def save_def cookie_ctx_def preset_loaded_def preset_saved_def
      test_env_def test_store_def map_index_def assert_int64_def MaxAge_def pos_max_age
      strip_metadata_def map_delete_def flag_Serialize_def stmtUpdate_def
      preset_resaved_def)

lemma preset_resaved_again_Save: "Save test_env test_store 1001 (cookie_ctx (replicate 52 (CHR ''A''))) preset_resaved
     = Return (preset_resaved_again, None)"
  by (simp add: Save_def save_def cookie_ctx_def preset_resaved_def
      test_env_def test_store_def map_index_def assert_int64_def MaxAge_def pos_max_age
      strip_metadata_def map_delete_def flag_Serialize_def stmtUpdate_def
      preset_resaved_again_def)

text \<open>
  Whatever \<open>save\<close> returns, it has deleted the three metadata keys from the session's
  value map: a further save of the same session carries no prior value.
\<close>

lemma strip_metadata_keys:
  "strip_metadata m vs (keyPrefix m @ ''created'') = None
   \<and> strip_metadata m vs (keyPrefix m @ ''expires'') = None
   \<and> strip_metadata m vs (keyPrefix m @ ''modified'') = None"
  by (simp add: strip_metadata_def map_delete_def)

lemma insert_row_Values:
  assumes "insert_row env m now c st = Return (st1, err)"
  shows "Values (sess st1) = strip_metadata m (Values (sess st))"
  using assms
  by (auto simp: insert_row_def Let_def
      split: if_splits outcome.splits sum.splits option.splits)

lemma save_Values:
  assumes "save env m now c st = Return (st1, err)"
  shows "Values (sess st1) = strip_metadata m (Values (sess st))"
proof (cases "IsNew (sess st)")
  case True
  with assms show ?thesis by (simp add: save_def insert_row_Values)
next
  case False
  with assms show ?thesis
    by (auto simp: save_def Let_def
        split: if_splits outcome.splits sum.splits option.splits)
qed

lemma save_strips:
  assumes "save env m now c st = Return (st1, err)"
  shows "map_index (Values (sess st1)) (keyPrefix m @ ''expires'') = GNil
       \<and> map_index (Values (sess st1)) (keyPrefix m @ ''created'') = GNil"
  using save_Values [OF assms] strip_metadata_keys [of m "Values (sess st)"]
  by (simp add: map_index_def)

section \<open>What the statements leave alone\<close>

text \<open>The update statement never changes a column \<open>modified\<close>.\<close>

lemma stmtUpdate_modified:
  "(case stmtUpdate d c e i t j of None \<Rightarrow> None | Some r \<Rightarrow> modified r)
     = (case t j of None \<Rightarrow> None | Some r \<Rightarrow> modified r)"
  by (simp add: stmtUpdate_def split: option.splits)

lemma save_db:
  assumes "\<not> IsNew (sess st)"
    and "save env m now c st = Return (st1, err)"
  shows "db st1 = db st \<or> (\<exists>d cr e. db st1 = stmtUpdate d cr e (ID (sess st)) (db st))"
  using assms
  apply (auto simp: save_def Let_def
      split: if_splits outcome.splits sum.splits option.splits)
       apply blast+
  done

lemma save_keeps_modified:
  assumes "\<not> IsNew (sess st)"
    and "save env m now c st = Return (st1, err)"
  shows "stored_modified st1 j = stored_modified st j"
proof -
  from save_db [OF assms] show ?thesis
  proof
    assume "db st1 = db st"
    then show ?thesis by (simp add: stored_modified_def)
  next
    assume "\<exists>d cr e. db st1 = stmtUpdate d cr e (ID (sess st)) (db st)"
    then obtain d cr e where "db st1 = stmtUpdate d cr e (ID (sess st)) (db st)"
      by blast
    then show ?thesis
      by (simp only: stored_modified_def stmtUpdate_modified)
  qed
qed

text \<open>
  A pass with the expiry fragment keeps exactly the rows whose \<open>expires\<close> is NULL or
  not less than the current time.
\<close>

lemma sweep_pass_expiry:
  assumes "fault env ExecGC = None"
  shows "db (sweep_pass DeleteWhereExpiresLess env now st) i
     = (case db st i of
          None \<Rightarrow> None
        | Some r \<Rightarrow> (case expires r of
                      None \<Rightarrow> Some r
                    | Some e \<Rightarrow> if e <s now then None else Some r))"
  using assms
  by (simp add: sweep_pass_def deleteExpired_def exec_gc_def split: option.splits)

section \<open>Loading\<close>

lemma test_store_New: "New test_env test_cfg = Inr test_store"
  by (simp add: New_def test_env_def test_cfg_def test_store_def Trim_def TrimLeft_def
      TrimRight_def)

text \<open>
  C5. When the row of the session's identifier is read and its \<open>expires\<close> is strictly
  less than the current time, \<open>load\<close> returns \<open>ErrSessionExpired\<close>, which is not
  \<open>sql.ErrNoRows\<close>, writes one log line and leaves the table (and the session) as they
  were. When \<open>expires\<close> equals the current time the row is not expired: nothing is
  logged and the result is that of deserialising the payload.
\<close>

theorem load_expired:
  assumes "fault env QuerySelect = None"
    and "db st (ID (sess st)) = Some row"
  shows "(null_Int64 (expires row) <s now \<longrightarrow>
            snd (load env m now st) = Some ErrSessionExpired
          \<and> ErrSessionExpired \<noteq> ErrNoRows
          \<and> logged (fst (load env m now st))
              = logged st @ [LogSessionExpired (null_Int64 (expires row)) now]
          \<and> db (fst (load env m now st)) = db st
          \<and> sess (fst (load env m now st)) = sess st)
       \<and> (null_Int64 (expires row) = now \<longrightarrow>
            snd (load env m now st)
              = snd (Deserialize env (null_Bytes (data row)) (Values (sess st)))
          \<and> logged (fst (load env m now st)) = logged st
          \<and> db (fst (load env m now st)) = db st)"
  using assms
  by (auto simp: load_def stmtSelect_def split: prod.splits option.splits)

theorem load_expired_witness:
  "snd (load test_env test_store 1000 stale_state) = Some ErrSessionExpired
   \<and> logged (fst (load test_env test_store 1000 stale_state)) = [LogSessionExpired 500 1000]
   \<and> db (fst (load test_env test_store 1000 stale_state)) ''abc'' = Some stale_row
   \<and> snd (load test_env test_store 500 stale_state) = None
   \<and> logged (fst (load test_env test_store 500 stale_state)) = []"
  using load_expired [of test_env stale_state stale_row 1000 test_store]
    load_expired [of test_env stale_state stale_row 500 test_store]
  by (simp add: test_env_def stale_state_def stale_row_def null_Int64_def null_Bytes_def
      flag_Deserialize_def)

section \<open>Deleting\<close>

text \<open>
  C10. \<open>Delete\<close> is not atomic: when the session has an identifier and the driver fails
  the delete statement, \<open>Delete\<close> returns the driver's error, and by then the value map
  has been emptied and the expiring cookie has been set on the response; the table is
  untouched.
\<close>

theorem Delete_not_atomic:
  assumes "ID (sess st) \<noteq> []"
    and "fault env ExecDelete = Some delErr"
  shows "snd (Delete env m c st) = Some delErr
       \<and> Values (sess (fst (Delete env m c st))) = Map.empty
       \<and> response (fst (Delete env m c st))
           = response st @ [SetCookie (Name (sess st)) [] (Some (- 1))]
       \<and> db (fst (Delete env m c st)) = db st"
  using assms
  by (simp add: Delete_def Remove_def)

theorem Delete_not_atomic_witness:
  "snd (Delete broken_env test_store test_ctx admin_state)
     = Some (ErrDriver ''connection lost'')
   \<and> Values (sess (fst (Delete broken_env test_store test_ctx admin_state))) ''admin'' = None
   \<and> response (fst (Delete broken_env test_store test_ctx admin_state))
     = [SetCookie ''sid'' [] (Some (- 1))]
   \<and> db (fst (Delete broken_env test_store test_ctx admin_state)) ''abc'' = Some fresh_row"
  using Delete_not_atomic [of admin_state broken_env "ErrDriver ''connection lost''"
      test_store test_ctx]
  by (simp add: admin_state_def broken_env_def)

section \<open>Fetch or create\<close>

text \<open>
  C6. With a cookie present, \<open>New\<close> returns an is-new session with an empty value map
  in each of these cases: when decoding the cookie fails, together with the decode
  error; when the cookie decodes and the row is missing or expired, together with no
  error. Any error of \<open>load\<close> other than \<open>sql.ErrNoRows\<close> and \<open>ErrSessionExpired\<close> is
  returned as it is.
\<close>

theorem New_error_contract:
  assumes "GetCookie c n \<noteq> []"
  shows "(snd (DecodeMulti env n (GetCookie c n) []) = Some decErr \<longrightarrow>
            snd (SQLStore_New env m now c n st) = Some decErr
          \<and> IsNew (sess (fst (SQLStore_New env m now c n st)))
          \<and> Values (sess (fst (SQLStore_New env m now c n st))) = Map.empty)
       \<and> (DecodeMulti env n (GetCookie c n) [] = (i, None)
            \<and> fault env QuerySelect = None
            \<and> (db st i = None
                \<or> (\<exists>row. db st i = Some row \<and> null_Int64 (expires row) <s now)) \<longrightarrow>
            snd (SQLStore_New env m now c n st) = None
          \<and> IsNew (sess (fst (SQLStore_New env m now c n st)))
          \<and> Values (sess (fst (SQLStore_New env m now c n st))) = Map.empty)
       \<and> (DecodeMulti env n (GetCookie c n) [] = (i, None)
            \<and> snd (load env m now (st\<lparr>sess := (NewSession n)\<lparr>IsNew := True, ID := i\<rparr>\<rparr>))
                = Some loadErr
            \<and> loadErr \<noteq> ErrNoRows \<and> loadErr \<noteq> ErrSessionExpired \<longrightarrow>
            snd (SQLStore_New env m now c n st) = Some loadErr)"
proof (intro conjI impI)
  assume d: "snd (DecodeMulti env n (GetCookie c n) []) = Some decErr"
  obtain j where "DecodeMulti env n (GetCookie c n) [] = (j, Some decErr)"
    using d by (cases "DecodeMulti env n (GetCookie c n) []") simp
  with assms show "snd (SQLStore_New env m now c n st) = Some decErr"
    and "IsNew (sess (fst (SQLStore_New env m now c n st)))"
    and "Values (sess (fst (SQLStore_New env m now c n st))) = Map.empty"
    by (simp_all add: SQLStore_New_def NewSession_def)
next
  assume a: "DecodeMulti env n (GetCookie c n) [] = (i, None)
      \<and> fault env QuerySelect = None
      \<and> (db st i = None \<or> (\<exists>row. db st i = Some row \<and> null_Int64 (expires row) <s now))"
  with assms show "snd (SQLStore_New env m now c n st) = None"
    and "IsNew (sess (fst (SQLStore_New env m now c n st)))"
    and "Values (sess (fst (SQLStore_New env m now c n st))) = Map.empty"
    by (auto simp: SQLStore_New_def NewSession_def load_def stmtSelect_def absorb_def)
next
  assume a: "DecodeMulti env n (GetCookie c n) [] = (i, None)
      \<and> snd (load env m now (st\<lparr>sess := (NewSession n)\<lparr>IsNew := True, ID := i\<rparr>\<rparr>))
          = Some loadErr
      \<and> loadErr \<noteq> ErrNoRows \<and> loadErr \<noteq> ErrSessionExpired"
  with assms show "snd (SQLStore_New env m now c n st) = Some loadErr"
    by (cases "load env m now (st\<lparr>sess := (NewSession n)\<lparr>IsNew := True, ID := i\<rparr>\<rparr>)")
       (simp add: SQLStore_New_def NewSession_def absorb_def)
qed

theorem New_error_contract_witness:
  "snd (SQLStore_New test_env test_store 1000 (cookie_ctx ''forged'') ''sid'' stale_state)
     = Some (ErrCodec ''securecookie: the value is not valid'')
   \<and> IsNew (sess (fst (SQLStore_New test_env test_store 1000 (cookie_ctx ''forged'') ''sid''
        stale_state)))
   \<and> snd (SQLStore_New test_env test_store 1000 (cookie_ctx ''abc'') ''sid'' stale_state) = None
   \<and> IsNew (sess (fst (SQLStore_New test_env test_store 1000 (cookie_ctx ''abc'') ''sid''
        stale_state)))
   \<and> snd (SQLStore_New test_env test_store 1000 (cookie_ctx ''xyz'') ''sid'' stale_state) = None
   \<and> snd (SQLStore_New broken_env test_store 1000 (cookie_ctx ''abc'') ''sid'' stale_state)
     = Some (ErrDriver ''connection lost'')"
  using
    New_error_contract [of "cookie_ctx ''forged''" "''sid''" test_env
      "ErrCodec ''securecookie: the value is not valid''" test_store 1000 stale_state]
    New_error_contract [of "cookie_ctx ''abc''" "''sid''" test_env _ test_store 1000
      stale_state "''abc''"]
    New_error_contract [of "cookie_ctx ''xyz''" "''sid''" test_env _ test_store 1000
      stale_state "''xyz''"]
    New_error_contract [of "cookie_ctx ''abc''" "''sid''" broken_env _ test_store 1000
      stale_state "''abc''" "ErrDriver ''connection lost''"]
  by (simp add: cookie_ctx_def test_env_def broken_env_def plain_DecodeMulti_def
      stale_state_def stale_row_def null_Int64_def load_def)

section \<open>Type assertions\<close>

text \<open>
  C9. \<open>insert\<close> and \<open>save\<close> read the metadata keys \<open>created\<close> and \<open>expires\<close> with an
  unchecked type assertion to \<open>int64\<close>. When each of the two keys is absent (or nil) or
  bound to an \<open>int64\<close>, neither operation panics; when either key is bound to a value
  of another type, both panic instead of returning an error.
\<close>

theorem type_assertions_panic:
  "(nil_or_int64 (map_index (Values (sess st)) (keyPrefix m @ ''created''))
      \<and> nil_or_int64 (map_index (Values (sess st)) (keyPrefix m @ ''expires'')) \<longrightarrow>
        insert_row env m now c st \<noteq> Panicked \<and> save env m now c st \<noteq> Panicked)
   \<and> (\<not> nil_or_int64 (map_index (Values (sess st)) (keyPrefix m @ ''created''))
      \<or> \<not> nil_or_int64 (map_index (Values (sess st)) (keyPrefix m @ ''expires'')) \<longrightarrow>
        insert_row env m now c st = Panicked \<and> save env m now c st = Panicked)"
proof -
  let ?cr = "map_index (Values (sess st)) (keyPrefix m @ ''created'')"
  let ?ex = "map_index (Values (sess st)) (keyPrefix m @ ''expires'')"
  have ins: "(insert_row env m now c st = Panicked)
      = (\<not> nil_or_int64 ?cr \<or> \<not> nil_or_int64 ?ex)"
    by (cases ?cr; cases ?ex)
       (simp_all add: insert_row_def assert_int64_def nil_or_int64_def Let_def
          split: sum.splits option.splits)
  have upd: "(save env m now c st = Panicked)
      = (\<not> nil_or_int64 ?cr \<or> \<not> nil_or_int64 ?ex)"
  proof (cases "IsNew (sess st)")
    case True
    with ins show ?thesis by (simp add: save_def)
  next
    case False
    then show ?thesis
      by (cases ?cr; cases ?ex)
         (simp_all add: save_def assert_int64_def nil_or_int64_def Let_def
            split: sum.splits option.splits)
  qed
  from ins upd show ?thesis by simp
qed

theorem type_assertions_panic_witness:
  "insert_row test_env test_store 1000 test_ctx admin_state \<noteq> Panicked
   \<and> save test_env test_store 1000 test_ctx admin_state \<noteq> Panicked
   \<and> insert_row test_env test_store 1000 test_ctx int_expiry_state = Panicked
   \<and> save test_env test_store 1000 test_ctx int_expiry_state = Panicked"
  using type_assertions_panic [of admin_state test_store test_env 1000 test_ctx]
    type_assertions_panic [of int_expiry_state test_store test_env 1000 test_ctx]
  by (simp add: admin_state_def int_expiry_state_def test_store_def map_index_def
      nil_or_int64_def)

section \<open>The identifier of a new session\<close>

text \<open>
  C7, as amended. When \<open>Save\<close> runs under a cookie policy whose max-age is not
  negative, on a session without identifier, and succeeds, the identifier is the base32
  encoding of the random key without its padding: for a key of 32 bytes, 52 characters
  of the base32 alphabet, none of them the padding character.
\<close>

theorem Save_new_identifier:
  assumes "ID (sess st) = []"
    and "\<not> CookieMaxAge c <s 0"
    and "length (GenerateRandomKey env) = 32"
    and "Save env m now c st = Return (st1, None)"
  shows "ID (sess st1) = new_session_id (GenerateRandomKey env)
       \<and> length (ID (sess st1)) = 52
       \<and> set (ID (sess st1)) \<subseteq> set encodeStd
       \<and> CHR ''='' \<notin> set (ID (sess st1))"
proof -
  from Save_without_identifier [OF assms(1,2,4)]
  have i: "ID (sess st1) = new_session_id (GenerateRandomKey env)"
    by auto
  from new_session_id_shape [of "GenerateRandomKey env"] assms(3)
  have l: "length (new_session_id (GenerateRandomKey env)) = 52"
    and s: "set (new_session_id (GenerateRandomKey env)) \<subseteq> set encodeStd"
    by simp_all
  from s pad_not_in_encodeStd
  have "CHR ''='' \<notin> set (new_session_id (GenerateRandomKey env))"
    by auto
  with i l s show ?thesis by simp
qed

theorem Save_new_identifier_witness:
  "length (ID (sess saved_state)) = 52 \<and> CHR ''='' \<notin> set (ID (sess saved_state))"
proof -
  have "ID (sess (empty_state blank_session)) = []"
    by (simp add: empty_state_def blank_session_def)
  moreover have "\<not> CookieMaxAge test_ctx <s 0"
    by (simp add: test_ctx_def)
  moreover have "length (GenerateRandomKey test_env) = 32"
    by (simp add: test_env_def)
  ultimately show ?thesis
    using Save_new_identifier [OF _ _ _ saved_state_Save] by blast
qed

text \<open>
  The identifier made from 32 zero bytes has 52 characters, not 26.
\<close>

theorem identifier_length_counterexample:
  "returned_ok (Save test_env test_store 1000 test_ctx (empty_state blank_session))
     = Some saved_state
   \<and> length (GenerateRandomKey test_env) = 32
   \<and> ID (sess (empty_state blank_session)) = []
   \<and> length (ID (sess saved_state)) = 52
   \<and> length (ID (sess saved_state)) \<noteq> 26"
  by (simp add: saved_state_Save returned_ok_def)
     (simp add: saved_state_def test_env_def empty_state_def blank_session_def)

section \<open>Round trip\<close>

text \<open>
  C4, as amended. Let \<open>Save\<close> run under a cookie policy whose max-age is not negative,
  on a session without identifier, with a non-empty random key, and succeed. Then the
  session has a non-empty identifier and its row is in the table. Let the codec give
  back the stripped value map from the payload that \<open>Save\<close> serialised, and let the
  driver not fail the select. Then \<open>load\<close>
  of a new session with that identifier, at any time that is not after the stored
  \<open>expires\<close>, returns no error, and the value map it leaves agrees with the one the
  session had at save time on every key other than the three metadata keys.
\<close>

theorem Save_load_roundtrip:
  assumes "ID (sess st) = []"
    and "\<not> CookieMaxAge c <s 0"
    and "GenerateRandomKey env \<noteq> []"
    and "Save env m now c st = Return (st1, None)"
    and "\<forall>b. Serialize env (strip_metadata m (Values (sess st))) = Inr b \<longrightarrow>
           Deserialize env b Map.empty = (strip_metadata m (Values (sess st)), None)"
    and "fault env QuerySelect = None"
  shows "ID (sess st1) \<noteq> []
       \<and> (\<exists>e. stored_expires st1 (ID (sess st1)) = Some e
            \<and> (\<not> e <s now' \<longrightarrow>
                 snd (load env m now' (st1\<lparr>sess := (NewSession n)\<lparr>ID := ID (sess st1)\<rparr>\<rparr>))
                   = None
               \<and> (\<forall>k. k \<noteq> keyPrefix m @ ''created'' \<and> k \<noteq> keyPrefix m @ ''modified''
                        \<and> k \<noteq> keyPrefix m @ ''expires'' \<longrightarrow>
                      Values (sess (fst (load env m now'
                         (st1\<lparr>sess := (NewSession n)\<lparr>ID := ID (sess st1)\<rparr>\<rparr>)))) k
                        = Values (sess st) k)))"
proof -
  let ?i = "new_session_id (GenerateRandomKey env)"
  let ?vs = "strip_metadata m (Values (sess st))"
  from Save_without_identifier [OF assms(1,2,4)]
  obtain encoded createdAt expiredAt where
    ser: "Serialize env ?vs = Inr encoded"
    and s1: "sess st1 = (sess st)\<lparr>ID := ?i, Values := ?vs\<rparr>"
    and d1: "db st1 = stmtInsert ?i encoded createdAt createdAt expiredAt (db st)"
    by blast
  from s1 have i: "ID (sess st1) = ?i" by simp
  from new_session_id_shape [of "GenerateRandomKey env"] assms(3)
  have "length ?i \<noteq> 0"
    by (cases "GenerateRandomKey env") simp_all
  then have ne: "?i \<noteq> []" by simp
  from d1 have row: "db st1 ?i
      = Some \<lparr>data = Some encoded, created = Some createdAt, modified = Some createdAt,
              expires = Some expiredAt\<rparr>"
    by (simp add: stmtInsert_def)
  then have e: "stored_expires st1 ?i = Some expiredAt"
    by (simp add: stored_expires_def)
  from ser assms(5) have de: "Deserialize env encoded Map.empty = (?vs, None)"
    by simp
  let ?r = "load env m now' (st1\<lparr>sess := (NewSession n)\<lparr>ID := ?i\<rparr>\<rparr>)"
  have ld: "\<not> expiredAt <s now' \<Longrightarrow>
      ?r = (st1\<lparr>sess := (NewSession n)\<lparr>ID := ?i, Values :=
              ?vs(keyPrefix m @ ''created'' \<mapsto> GInt64 createdAt,
                  keyPrefix m @ ''modified'' \<mapsto> GInt64 createdAt,
                  keyPrefix m @ ''expires'' \<mapsto> GInt64 expiredAt)\<rparr>\<rparr>, None)"
    using assms(6) row de
    by (simp add: load_def stmtSelect_def NewSession_def null_Int64_def null_Bytes_def)
  have "\<not> expiredAt <s now' \<longrightarrow>
          snd ?r = None
        \<and> (\<forall>k. k \<noteq> keyPrefix m @ ''created'' \<and> k \<noteq> keyPrefix m @ ''modified''
                 \<and> k \<noteq> keyPrefix m @ ''expires'' \<longrightarrow>
               Values (sess (fst ?r)) k = Values (sess st) k)"
    using ld by (simp add: strip_metadata_other)
  with ne e i show ?thesis by auto
qed

theorem Save_load_roundtrip_witness:
  "ID (sess saved_state) \<noteq> []
   \<and> snd (load test_env test_store 2000
        (saved_state\<lparr>sess := (NewSession ''sid'')\<lparr>ID := ID (sess saved_state)\<rparr>\<rparr>)) = None
   \<and> Values (sess (fst (load test_env test_store 2000
        (saved_state\<lparr>sess := (NewSession ''sid'')\<lparr>ID := ID (sess saved_state)\<rparr>\<rparr>)))) ''admin''
      = Some (GBool True)"
proof -
  let ?r = "load test_env test_store 2000
      (saved_state\<lparr>sess := (NewSession ''sid'')\<lparr>ID := ID (sess saved_state)\<rparr>\<rparr>)"
  have h1: "ID (sess (empty_state blank_session)) = []"
    by (simp add: empty_state_def blank_session_def)
  have h2: "\<not> CookieMaxAge test_ctx <s 0"
    by (simp add: test_ctx_def)
  have h3: "GenerateRandomKey test_env \<noteq> []"
    by (simp add: test_env_def)
  have h5: "\<forall>b. Serialize test_env
        (strip_metadata test_store (Values (sess (empty_state blank_session)))) = Inr b \<longrightarrow>
      Deserialize test_env b Map.empty
        = (strip_metadata test_store (Values (sess (empty_state blank_session))), None)"
    by (auto simp: test_env_def test_store_def empty_state_def blank_session_def
        strip_metadata_def map_delete_def flag_Serialize_def flag_Deserialize_def)
  have h6: "fault test_env QuerySelect = None"
    by (simp add: test_env_def)
  from Save_load_roundtrip [where now' = 2000 and n = "''sid''",
      OF h1 h2 h3 saved_state_Save h5 h6]
  obtain e where ne: "ID (sess saved_state) \<noteq> []"
    and e: "stored_expires saved_state (ID (sess saved_state)) = Some e"
    and r: "\<not> e <s 2000 \<longrightarrow> snd ?r = None
        \<and> (\<forall>k. k \<noteq> keyPrefix test_store @ ''created''
                 \<and> k \<noteq> keyPrefix test_store @ ''modified''
                 \<and> k \<noteq> keyPrefix test_store @ ''expires'' \<longrightarrow>
               Values (sess (fst ?r)) k = Values (sess (empty_state blank_session)) k)"
    by blast
  have "stored_expires saved_state (ID (sess saved_state)) = Some 87400"
    by (simp add: saved_state_def stored_expires_def)
  with e have "e = 87400" by simp
  then have "\<not> e <s 2000" by simp
  with r have ok: "snd ?r = None"
    and same: "\<forall>k. k \<noteq> keyPrefix test_store @ ''created''
                 \<and> k \<noteq> keyPrefix test_store @ ''modified''
                 \<and> k \<noteq> keyPrefix test_store @ ''expires'' \<longrightarrow>
               Values (sess (fst ?r)) k = Values (sess (empty_state blank_session)) k"
    by simp_all
  have "''admin'' \<noteq> keyPrefix test_store @ ''created''
      \<and> ''admin'' \<noteq> keyPrefix test_store @ ''modified''
      \<and> ''admin'' \<noteq> keyPrefix test_store @ ''expires''"
    by (simp add: test_store_def)
  with same have "Values (sess (fst ?r)) ''admin''
      = Values (sess (empty_state blank_session)) ''admin''"
    by blast
  also have "\<dots> = Some (GBool True)"
    by (simp add: empty_state_def blank_session_def)
  finally show ?thesis using ne ok by simp
qed

text \<open>
  Under a cookie policy with max-age \<open>-1\<close>, \<open>Save\<close> of a session without identifier
  returns no error, and the session still has no identifier; its value map is empty and
  no row was written. And when \<open>GenerateRandomKey\<close> returns no bytes, \<open>Save\<close> under a
  max-age of 0 returns no error, the session still has no identifier, and the row was
  written under the empty identifier.
\<close>

theorem Save_negative_max_age_counterexample:
  "returned_ok (Save test_env test_store 1000 (test_ctx\<lparr>CookieMaxAge := - 1\<rparr>)
      (empty_state blank_session)) = Some deleted_state
   \<and> ID (sess (empty_state blank_session)) = []
   \<and> ID (sess deleted_state) = []
   \<and> Values (sess deleted_state) ''admin'' = None
   \<and> db deleted_state (ID (sess deleted_state)) = None
   \<and> returned_ok (Save (test_env\<lparr>GenerateRandomKey := []\<rparr>) test_store 1000 test_ctx
      (empty_state blank_session)) = Some nokey_state
   \<and> ID (sess nokey_state) = []
   \<and> stored_expires nokey_state [] = Some 87400"
proof -
  have "Save test_env test_store 1000 (test_ctx\<lparr>CookieMaxAge := - 1\<rparr>)
      (empty_state blank_session) = Return (deleted_state, None)"
    by (simp add: Save_def Delete_def Remove_def test_ctx_def empty_state_def
        blank_session_def deleted_state_def)
  moreover have "Save (test_env\<lparr>GenerateRandomKey := []\<rparr>) test_store 1000 test_ctx
      (empty_state blank_session) = Return (nokey_state, None)"
    by (simp add: Save_def insert_row_def test_ctx_def empty_state_def blank_session_def
        test_env_def test_store_def map_index_def MaxAge_def pos_max_age strip_metadata_def
        map_delete_def flag_Serialize_def stmtInsert_def new_session_id_def TrimRight_def
        nokey_state_def)
  ultimately show ?thesis
    by (simp add: returned_ok_def)
       (simp add: empty_state_def blank_session_def deleted_state_def nokey_state_def
        stored_expires_def)
qed

section \<open>The expiry written by an update\<close>

text \<open>
  C3, as amended. Let \<open>save\<close> update the row of a session that is not new and return
  no error. When the value map carries an \<open>int64\<close> under the metadata key \<open>expires\<close>,
  the stored \<open>expires\<close> is the larger of that value and now plus the effective max-age;
  when it carries none, the stored \<open>expires\<close> is now plus the effective max-age (both
  in \<open>int64\<close> arithmetic). Hence the stored \<open>expires\<close> does not decrease across the
  save when the value map carries the value stored before (as \<open>load\<close> leaves it), nor
  when the value stored before is at most now plus the effective max-age and that sum
  does not overflow.
\<close>

theorem update_expires:
  assumes "\<not> IsNew (sess st)"
    and "db st (ID (sess st)) = Some row"
    and "save env m now c st = Return (st1, None)"
  shows "(map_index (Values (sess st)) (keyPrefix m @ ''expires'') = GInt64 e \<longrightarrow>
            stored_expires st1 (ID (sess st)) = Some (smax e (now + MaxAge env m c)))
       \<and> (map_index (Values (sess st)) (keyPrefix m @ ''expires'') = GNil \<longrightarrow>
            stored_expires st1 (ID (sess st)) = Some (now + MaxAge env m c))
       \<and> (map_index (Values (sess st)) (keyPrefix m @ ''expires'') = GInt64 e
            \<and> expires row = Some e \<longrightarrow>
            (\<exists>e1. stored_expires st1 (ID (sess st)) = Some e1 \<and> e \<le>s e1))
       \<and> (expires row = Some e0
            \<and> sint e0 \<le> sint now + sint (MaxAge env m c)
            \<and> - (2 ^ 63) \<le> sint now + sint (MaxAge env m c)
            \<and> sint now + sint (MaxAge env m c) < 2 ^ 63 \<longrightarrow>
            (\<exists>e1. stored_expires st1 (ID (sess st)) = Some e1 \<and> e0 \<le>s e1))"
proof -
  let ?x = "now + MaxAge env m c"
  let ?v = "map_index (Values (sess st)) (keyPrefix m @ ''expires'')"
  from save_update_path [OF assms(1,3)]
  obtain encoded createdAt expiredAt where
    d: "db st1 = stmtUpdate encoded createdAt expiredAt (ID (sess st)) (db st)"
    and x: "?v = GNil \<and> expiredAt = ?x \<or> (\<exists>e. ?v = GInt64 e \<and> expiredAt = smax e ?x)"
    by blast
  from d assms(2) have s: "stored_expires st1 (ID (sess st)) = Some expiredAt"
    by (simp add: stored_expires_def stmtUpdate_def)
  have a: "?v = GInt64 e \<longrightarrow> expiredAt = smax e ?x"
    using x by auto
  have b: "?v = GNil \<longrightarrow> expiredAt = ?x"
    using x by auto
  have ge: "?x \<le>s expiredAt"
    using x smax_ge_right by auto
  have c3: "?v = GInt64 e \<longrightarrow> e \<le>s expiredAt"
    using a smax_ge_left by simp
  have c4: "sint e0 \<le> sint now + sint (MaxAge env m c)
            \<and> - (2 ^ 63) \<le> sint now + sint (MaxAge env m c)
            \<and> sint now + sint (MaxAge env m c) < 2 ^ 63 \<longrightarrow> e0 \<le>s expiredAt"
  proof
    assume h: "sint e0 \<le> sint now + sint (MaxAge env m c)
            \<and> - (2 ^ 63) \<le> sint now + sint (MaxAge env m c)
            \<and> sint now + sint (MaxAge env m c) < 2 ^ 63"
    then have "sint ?x = sint now + sint (MaxAge env m c)"
      by (simp add: sint_add_in_range)
    with h have "e0 \<le>s ?x" by (simp add: word_sle_eq)
    with ge show "e0 \<le>s expiredAt"
      by (simp add: word_sle_eq)
  qed
  from s a b c3 c4 show ?thesis by simp
qed

theorem update_expires_witness:
  "stored_expires once_updated ''abc'' = Some (smax 100000 87400)
   \<and> stored_expires late_updated ''abc'' = Some 136400
   \<and> (\<exists>e1. stored_expires once_updated ''abc'' = Some e1 \<and> 100000 \<le>s e1)
   \<and> (\<exists>e1. stored_expires late_updated ''abc'' = Some e1 \<and> 100000 \<le>s e1)"
proof -
  have n1: "\<not> IsNew (sess admin_state)"
    by (simp add: admin_state_def)
  have r1: "db admin_state (ID (sess admin_state)) = Some fresh_row"
    by (simp add: admin_state_def)
  have v1: "map_index (Values (sess admin_state)) (keyPrefix test_store @ ''expires'')
      = GInt64 100000"
    by (simp add: admin_state_def test_store_def map_index_def)
  have e1: "expires fresh_row = Some 100000"
    by (simp add: fresh_row_def)
  have i1: "ID (sess admin_state) = ''abc''"
    by (simp add: admin_state_def)
  note t1 = update_expires [OF n1 r1 once_updated_save, of 100000 100000]
  have n2: "\<not> IsNew (sess once_updated)"
    by (simp add: once_updated_def)
  have r2: "db once_updated (ID (sess once_updated)) = Some fresh_row"
    by (simp add: once_updated_def fresh_row_def)
  have v2: "map_index (Values (sess once_updated)) (keyPrefix test_store @ ''expires'') = GNil"
    by (simp add: once_updated_def test_store_def map_index_def)
  have i2: "ID (sess once_updated) = ''abc''"
    by (simp add: once_updated_def)
  note t2 = update_expires [OF n2 r2 late_updated_save, of 0 100000]
  from t1 v1 e1 i1 have a: "stored_expires once_updated ''abc'' = Some (smax 100000 87400)"
    and b: "\<exists>e1. stored_expires once_updated ''abc'' = Some e1 \<and> 100000 \<le>s e1"
    by (simp_all add: test_MaxAge smax_ge_left)
  from t2 v2 e1 i2 have c: "stored_expires late_updated ''abc'' = Some 136400"
    and d: "\<exists>e1. stored_expires late_updated ''abc'' = Some e1 \<and> 100000 \<le>s e1"
    by (simp_all add: test_MaxAge)
  from a b c d show ?thesis by simp
qed

text \<open>
  The max-age fixed at 86400, the clock going 900, 950, 1000, 1001. A session whose
  metadata key \<open>expires\<close> the application set to 100000 is saved, which stores
  100000; \<open>New\<close> loads it from its cookie, not new; \<open>Save\<close> at 1000 carries the
  stored value and keeps 100000; \<open>Save\<close> of the same session at 1001 finds the
  metadata keys deleted by the save before and stores 87401.
\<close>

theorem second_save_counterexample:
  "returned_ok (Save test_env test_store 900 test_ctx (empty_state preset_session))
     = Some preset_saved
   \<and> SQLStore_New test_env test_store 950 (cookie_ctx (ID (sess preset_saved))) ''sid''
       preset_saved = (preset_loaded, None)
   \<and> \<not> IsNew (sess preset_loaded)
   \<and> returned_ok (Save test_env test_store 1000 (cookie_ctx (ID (sess preset_saved)))
       preset_loaded) = Some preset_resaved
   \<and> returned_ok (Save test_env test_store 1001 (cookie_ctx (ID (sess preset_saved)))
       preset_resaved) = Some preset_resaved_again
   \<and> stored_expires preset_resaved (ID (sess preset_saved)) = Some 100000
   \<and> stored_expires preset_resaved_again (ID (sess preset_saved)) = Some 87401
   \<and> (87401 :: int64) <s 100000"
proof -
  have i: "ID (sess preset_saved) = replicate 52 (CHR ''A'')"
    by (simp add: preset_saved_def)
  have "stored_expires preset_resaved (replicate 52 (CHR ''A'')) = Some 100000"
    and "stored_expires preset_resaved_again (replicate 52 (CHR ''A'')) = Some 87401"
    and "\<not> IsNew (sess preset_loaded)"
    by (simp_all add: stored_expires_def preset_resaved_def preset_resaved_again_def
        preset_loaded_def)
  then show ?thesis
    by (simp add: i preset_saved_Save preset_loaded_New preset_resaved_Save
        preset_resaved_again_Save returned_ok_def)
qed

section \<open>The column \<open>modified\<close>\<close>

text \<open>
  C2. The specification has the column \<open>modified\<close> updated on every save. Here \<open>Save\<close>
  at time 1000 updates the row of a session that is not new and returns no error: the
  row's \<open>modified\<close> is 100 before and 100 after. \<open>Save\<close> on the insert path does write
  the column (1000, in \<open>saved_state\<close>).
\<close>

theorem update_leaves_modified:
  "returned_ok (Save test_env test_store 1000 test_ctx admin_state)
     = Some (once_updated\<lparr>response := [SetCookie ''sid'' ''abc'' None]\<rparr>)
   \<and> stored_modified admin_state ''abc'' = Some 100
   \<and> stored_modified once_updated ''abc'' = Some 100
   \<and> returned_ok (Save test_env test_store 1000 test_ctx (empty_state blank_session))
     = Some saved_state
   \<and> stored_modified saved_state (ID (sess saved_state)) = Some 1000"
proof -
  have "Save test_env test_store 1000 test_ctx admin_state
      = Return (once_updated\<lparr>response := [SetCookie ''sid'' ''abc'' None]\<rparr>, None)"
    using once_updated_save
    by (simp add: Save_def test_ctx_def admin_state_def)
       (simp add: once_updated_def test_env_def)
  then show ?thesis
    by (simp add: returned_ok_def saved_state_Save)
       (simp add: stored_modified_def admin_state_def fresh_row_def once_updated_def
        saved_state_def)
qed

section \<open>A sweep pass\<close>

text \<open>
  C1. The specification has one sweep pass delete every row that is expired or is empty
  and old. The store built by \<open>New\<close> holds both fragments, and a pass executes one
  statement. In the table of \<open>sweep_state\<close>, at time 10000, the specification selects
  both rows; a pass with the fragment \<open>gcMaxAgeSQL\<close> deletes \<open>old\<close> and leaves
  \<open>idle\<close>, a pass with the fragment \<open>gcEmptyDataSQL\<close> leaves \<open>old\<close>; whatever the
  fragment \<open>q\<close>, one of the two rows is left.
\<close>

theorem sweep_pass_leaves_row:
  "New test_env test_cfg = Inr test_store
   \<and> spec_sweep_selects test_env test_store 10000 stale_row
   \<and> spec_sweep_selects test_env test_store 10000 idle_row
   \<and> db (sweep_pass (gcMaxAgeSQL test_store) test_env 10000 sweep_state) ''old'' = None
   \<and> db (sweep_pass (gcMaxAgeSQL test_store) test_env 10000 sweep_state) ''idle''
       = Some idle_row
   \<and> db (sweep_pass (gcEmptyDataSQL test_store) test_env 10000 sweep_state) ''old''
       = Some stale_row
   \<and> (db (sweep_pass q test_env 10000 sweep_state) ''old'' = Some stale_row
       \<or> db (sweep_pass q test_env 10000 sweep_state) ''idle'' = Some idle_row)"
proof -
  have "db (sweep_pass q test_env 10000 sweep_state) ''old'' = Some stale_row
      \<or> db (sweep_pass q test_env 10000 sweep_state) ''idle'' = Some idle_row"
    by (cases q)
       (simp_all add: sweep_pass_def deleteExpired_def exec_gc_def
        test_env_def sweep_state_def stale_row_def idle_row_def)
  then show ?thesis
    by (simp add: test_store_New)
       (simp add: spec_sweep_selects_def sweep_pass_def deleteExpired_def exec_gc_def
        test_env_def test_store_def sweep_state_def stale_row_def idle_row_def)
qed

end
